theory Spec2Isabelle
  imports Complex_Main
begin

section \<open>JavaScript values used by the Coinbase mappers\<close>

text \<open>
  A JavaScript number is a double: not-a-number, one of the two infinities, or a finite
  value, which is always a rational. The two zeros compare equal under every operator
  the mappers use, so they are one value here.
\<close>

datatype jsnumber = NaN | NegInfinity | Infinity | Num rat

text \<open>\<^verbatim>\<open>Number.isNaN(x)\<close>.\<close>

fun Number_isNaN :: "jsnumber \<Rightarrow> bool" where
  "Number_isNaN NaN = True"
| "Number_isNaN _ = False"

text \<open>The operator \<^verbatim>\<open>x < y\<close> on numbers: false as soon as one side is NaN.\<close>

fun js_lt :: "jsnumber \<Rightarrow> jsnumber \<Rightarrow> bool" where
  "js_lt NaN _ = False"
| "js_lt _ NaN = False"
| "js_lt NegInfinity NegInfinity = False"
| "js_lt NegInfinity _ = True"
| "js_lt _ NegInfinity = False"
| "js_lt Infinity _ = False"
| "js_lt _ Infinity = True"
| "js_lt (Num a) (Num b) = (a < b)"

text \<open>The operator \<^verbatim>\<open>x >= y\<close> on numbers: false as soon as one side is NaN.\<close>

definition js_ge :: "jsnumber \<Rightarrow> jsnumber \<Rightarrow> bool" where
  "js_ge x y = (\<not> Number_isNaN x \<and> \<not> Number_isNaN y \<and> \<not> js_lt x y)"

text \<open>
  A \<^verbatim>\<open>Date\<close> object: its time value (what \<^verbatim>\<open>valueOf()\<close> returns, NaN for an
  invalid date) and the property \<^verbatim>\<open>\<mu>s\<close> the mappers attach to it, absent on a date
  that never got one.
\<close>

record jsdate =
  valueOf :: jsnumber
  us :: "jsnumber option"

text \<open>A JSON-decoded value, for the fields of a message the mappers do not read.\<close>

datatype json =
  JNull | JBool bool | JNumber jsnumber | JString string
| JArray "json list" | JObject "(string \<times> json) list"

text \<open>What a call can raise in place of returning.\<close>

datatype js_error = TypeError

text \<open>
  What the mappers call and this file does not define: the built-ins
  \<^verbatim>\<open>new Date(string)\<close> (its time value), \<^verbatim>\<open>Number(string)\<close> and
  \<^verbatim>\<open>String(number)\<close>, and \<^verbatim>\<open>parse\<mu>s\<close>, imported from \<^verbatim>\<open>../handy\<close>.
  Every mapper takes them as a parameter. \<^verbatim>\<open>parse\<mu>s\<close> is declared on strings, where
  it returns a number (\<open>parseus\<close>); \<open>parseus_undefined\<close> is what the call
  \<^verbatim>\<open>parse\<mu>s(undefined)\<close> does, which is to raise or to return a number.
\<close>

record runtime =
  js_Date_parse :: "string \<Rightarrow> jsnumber"
  js_Number :: "string \<Rightarrow> jsnumber"
  js_String :: "jsnumber \<Rightarrow> string"
  parseus :: "string \<Rightarrow> jsnumber"
  parseus_undefined :: "js_error + jsnumber"

text \<open>The call \<^verbatim>\<open>parse\<mu>s(x)\<close> for \<^verbatim>\<open>x\<close> a string or \<^verbatim>\<open>undefined\<close>.\<close>

definition call_parseus :: "runtime \<Rightarrow> string option \<Rightarrow> js_error + jsnumber" where
  "call_parseus rt x = (case x of None \<Rightarrow> parseus_undefined rt | Some s \<Rightarrow> Inr (parseus rt s))"

text \<open>
  \<^verbatim>\<open>new Date(x)\<close> for \<^verbatim>\<open>x\<close> a string or \<^verbatim>\<open>undefined\<close>: the date built from
  \<^verbatim>\<open>undefined\<close> is invalid, and a fresh date carries no \<^verbatim>\<open>\<mu>s\<close>.
\<close>

definition new_Date :: "runtime \<Rightarrow> string option \<Rightarrow> jsdate" where
  "new_Date rt x =
     \<lparr>valueOf = (case x of None \<Rightarrow> NaN | Some s \<Rightarrow> js_Date_parse rt s), us = None\<rparr>"

section \<open>Messages of the exchange\<close>

datatype side = Buy | Sell

definition side_tag :: "side \<Rightarrow> string" where
  "side_tag s = (case s of Buy \<Rightarrow> ''buy'' | Sell \<Rightarrow> ''sell'')"

text \<open>
  \<^verbatim>\<open>CoinbaseTrade\<close>; \<open>m_rest\<close> holds the keys admitted by its index signature.
\<close>

record CoinbaseTrade =
  m_trade_id :: jsnumber
  m_time :: string
  m_product_id :: string
  m_size :: string
  m_price :: string
  m_side :: side
  m_rest :: "string \<rightharpoonup> json"

text \<open>
  A matched-trade message as \<^verbatim>\<open>map\<close> receives it at run time, where the declared
  type is not checked: the fields of \<^verbatim>\<open>CoinbaseTrade\<close>, of which the \<^verbatim>\<open>time\<close> key
  can be missing.
\<close>

record CoinbaseTradeReceived =
  r_trade_id :: jsnumber
  r_time :: "string option"
  r_product_id :: string
  r_size :: string
  r_price :: string
  r_side :: side
  r_rest :: "string \<rightharpoonup> json"

text \<open>A message of the declared type, as it is received.\<close>

definition received :: "CoinbaseTrade \<Rightarrow> CoinbaseTradeReceived" where
  "received message =
     \<lparr>r_trade_id = m_trade_id message, r_time = Some (m_time message),
      r_product_id = m_product_id message, r_size = m_size message,
      r_price = m_price message, r_side = m_side message, r_rest = m_rest message\<rparr>"

type_synonym CoinbaseSnapshotBookLevel = "string \<times> string"

record CoinbaseLevel2Snapshot =
  s_product_id :: string
  s_bids :: "CoinbaseSnapshotBookLevel list"
  s_asks :: "CoinbaseSnapshotBookLevel list"
  s_time :: "string option"

type_synonym CoinbaseUpdateBookLevel = "side \<times> string \<times> string"

record CoinbaseLevel2Update =
  u_product_id :: string
  u_time :: string
  u_changes :: "CoinbaseUpdateBookLevel list"

text \<open>The argument of the book mapper's \<^verbatim>\<open>map\<close>, told apart by its \<^verbatim>\<open>type\<close>.\<close>

datatype book_message = Snapshot CoinbaseLevel2Snapshot | L2Update CoinbaseLevel2Update

text \<open>
  \<^verbatim>\<open>CoinbaseTicker\<close>: the fields \<^verbatim>\<open>map\<close> reads, each of which it compares
  with \<^verbatim>\<open>undefined\<close>.
\<close>

record CoinbaseTicker =
  k_product_id :: string
  k_time :: "string option"
  k_best_bid :: "string option"
  k_best_ask :: "string option"
  k_best_bid_size :: "string option"
  k_best_ask_size :: "string option"

section \<open>Normalized events\<close>

record BookPriceLevel =
  price :: jsnumber
  amount :: jsnumber

record NormalizedData =
  etype :: string
  symbol :: string
  exchange :: string
  timestamp :: jsdate
  localTimestamp :: jsdate

record Trade = NormalizedData +
  trade_ident :: string
  trade_price :: jsnumber
  trade_amount :: jsnumber
  trade_side :: side
  exchangeSpecific :: "string \<rightharpoonup> json"

record BookChange = NormalizedData +
  isSnapshot :: bool
  bids :: "BookPriceLevel list"
  asks :: "BookPriceLevel list"

record BookTicker = NormalizedData +
  askAmount :: "jsnumber option"
  askPrice :: "jsnumber option"
  bidPrice :: "jsnumber option"
  bidAmount :: "jsnumber option"

record Filter =
  channel :: string
  symbols :: "string list option"

section \<open>Helpers\<close>

text \<open>
  \<^verbatim>\<open>pruneObject\<close>: a copy of the object, from which each excluded key is deleted in
  turn.
\<close>

definition pruneObject :: "(string \<rightharpoonup> json) \<Rightarrow> string list \<Rightarrow> (string \<rightharpoonup> json)" where
  "pruneObject obj exclusionKeys = fold (\<lambda>key result. result(key := None)) exclusionKeys obj"

definition CoinbaseTradeExcluded :: "string list" where
  "CoinbaseTradeExcluded = [''type'', ''trade_id'', ''product_id'', ''size'', ''price'', ''side'']"

text \<open>The trade message as the object \<^verbatim>\<open>pruneObject\<close> receives.\<close>

definition trade_object :: "CoinbaseTrade \<Rightarrow> (string \<rightharpoonup> json)" where
  "trade_object message =
     (m_rest message)
       (''type'' \<mapsto> JString ''match'',
        ''trade_id'' \<mapsto> JNumber (m_trade_id message),
        ''time'' \<mapsto> JString (m_time message),
        ''product_id'' \<mapsto> JString (m_product_id message),
        ''size'' \<mapsto> JString (m_size message),
        ''price'' \<mapsto> JString (m_price message),
        ''side'' \<mapsto> JString (side_tag (m_side message)))"

text \<open>The same for a received message: it has a \<^verbatim>\<open>time\<close> key when it has a time.\<close>

definition received_object :: "CoinbaseTradeReceived \<Rightarrow> (string \<rightharpoonup> json)" where
  "received_object message =
     ((r_rest message)
        (''type'' \<mapsto> JString ''match'',
         ''trade_id'' \<mapsto> JNumber (r_trade_id message),
         ''time'' := map_option JString (r_time message)))
       (''product_id'' \<mapsto> JString (r_product_id message),
        ''size'' \<mapsto> JString (r_size message),
        ''price'' \<mapsto> JString (r_price message),
        ''side'' \<mapsto> JString (side_tag (r_side message)))"

text \<open>
  \<^verbatim>\<open>String.prototype.toUpperCase\<close> on strings of bytes: the ASCII letters
  \<^verbatim>\<open>a\<close> to \<^verbatim>\<open>z\<close> move to \<^verbatim>\<open>A\<close> to \<^verbatim>\<open>Z\<close>, every other
  byte stays.
\<close>

definition upper_char :: "char \<Rightarrow> char" where
  "upper_char c =
     (let n = (of_char c :: nat) in if 97 \<le> n \<and> n \<le> 122 then char_of (n - 32) else c)"

definition toUpperCase :: "string \<Rightarrow> string" where
  "toUpperCase s = map upper_char s"

text \<open>
  Modelled from the spec: \<^verbatim>\<open>upperCaseSymbols\<close> is imported from \<^verbatim>\<open>../handy\<close>, which
  is not among the source files. The spec has each descriptor carry "an optional,
  case-normalized set of symbols (uppercased; undefined if no symbols requested)".
\<close>

definition upperCaseSymbols :: "string list option \<Rightarrow> string list option" where
  "upperCaseSymbols syms =
     (case syms of None \<Rightarrow> None | Some l \<Rightarrow> Some (map toUpperCase l))"

definition mapUpdateBookLevel :: "runtime \<Rightarrow> CoinbaseUpdateBookLevel \<Rightarrow> BookPriceLevel" where
  "mapUpdateBookLevel rt level =
     (case level of (tag, p, a) \<Rightarrow> \<lparr>price = js_Number rt p, amount = js_Number rt a\<rparr>)"

definition mapSnapshotBookLevel :: "runtime \<Rightarrow> CoinbaseSnapshotBookLevel \<Rightarrow> BookPriceLevel" where
  "mapSnapshotBookLevel rt level =
     (case level of (p, a) \<Rightarrow> \<lparr>price = js_Number rt p, amount = js_Number rt a\<rparr>)"

definition validAmountsOnly :: "BookPriceLevel \<Rightarrow> bool" where
  "validAmountsOnly level =
     (if Number_isNaN (amount level) then False
      else if js_lt (amount level) (Num 0) then False
      else True)"

section \<open>The trade mapper\<close>

definition coinbaseTradesMapper_getFilters :: "string list option \<Rightarrow> Filter list" where
  "coinbaseTradesMapper_getFilters syms =
     (let syms = upperCaseSymbols syms in [\<lparr>channel = ''match'', symbols = syms\<rparr>])"

definition coinbaseTradesMapper_map :: "runtime \<Rightarrow> CoinbaseTrade \<Rightarrow> jsdate \<Rightarrow> Trade list" where
  "coinbaseTradesMapper_map rt message localTs =
     (let ts = new_Date rt (Some (m_time message));
          ts = ts\<lparr>us := Some (parseus rt (m_time message))\<rparr>
      in [\<lparr>etype = ''trade'',
           symbol = m_product_id message,
           exchange = ''coinbase'',
           timestamp = ts,
           localTimestamp = localTs,
           trade_ident = js_String rt (m_trade_id message),
           trade_price = js_Number rt (m_price message),
           trade_amount = js_Number rt (m_size message),
           trade_side = (if m_side message = Sell then Buy else Sell),
           exchangeSpecific = pruneObject (trade_object message) CoinbaseTradeExcluded\<rparr>])"

text \<open>
  The same \<^verbatim>\<open>map\<close> on a message as received. The date is built first; the call of
  \<^verbatim>\<open>parse\<mu>s\<close> comes next, before the \<^verbatim>\<open>yield\<close>, and when it raises the generator
  ends there, with nothing yielded.
\<close>

definition coinbaseTradesMapper_map_received ::
  "runtime \<Rightarrow> CoinbaseTradeReceived \<Rightarrow> jsdate \<Rightarrow> js_error + Trade list" where
  "coinbaseTradesMapper_map_received rt message localTs =
     (let ts = new_Date rt (r_time message)
      in case call_parseus rt (r_time message) of
           Inl e \<Rightarrow> Inl e
         | Inr u \<Rightarrow>
             (let ts = ts\<lparr>us := Some u\<rparr>
              in Inr [\<lparr>etype = ''trade'',
                       symbol = r_product_id message,
                       exchange = ''coinbase'',
                       timestamp = ts,
                       localTimestamp = localTs,
                       trade_ident = js_String rt (r_trade_id message),
                       trade_price = js_Number rt (r_price message),
                       trade_amount = js_Number rt (r_size message),
                       trade_side = (if r_side message = Sell then Buy else Sell),
                       exchangeSpecific =
                         pruneObject (received_object message) CoinbaseTradeExcluded\<rparr>]))"

section \<open>The book-change mapper\<close>

text \<open>The private \<^verbatim>\<open>_symbolLastTimestampMap\<close> of one mapper instance.\<close>

type_synonym symbolLastTimestampMap = "string \<rightharpoonup> jsdate"

text \<open>
  \<^verbatim>\<open>getFilters\<close> is a method of the class: it receives the instance's map and hands it
  back, with the descriptors.
\<close>

definition CoinbaseBookChangMapper_getFilters ::
  "symbolLastTimestampMap \<Rightarrow> string list option \<Rightarrow> Filter list \<times> symbolLastTimestampMap" where
  "CoinbaseBookChangMapper_getFilters cache syms =
     (let syms = upperCaseSymbols syms
      in ([\<lparr>channel = ''snapshot'', symbols = syms\<rparr>,
           \<lparr>channel = ''l2update'', symbols = syms\<rparr>], cache))"

text \<open>
  \<^verbatim>\<open>map\<close>, drained by its caller: the events it yields, in order, and the map it
  leaves. The \<^verbatim>\<open>return\<close> of the incremental branch ends the generator with nothing
  yielded.
\<close>

definition CoinbaseBookChangMapper_map ::
  "runtime \<Rightarrow> symbolLastTimestampMap \<Rightarrow> book_message \<Rightarrow> jsdate
     \<Rightarrow> BookChange list \<times> symbolLastTimestampMap" where
  "CoinbaseBookChangMapper_map rt cache message localTs =
     (case message of
        Snapshot m \<Rightarrow>
          (let ts =
             (case s_time m of
                Some t \<Rightarrow>
                  (let d = new_Date rt (Some t)
                   in if js_lt (valueOf d) (Num 0) then localTs
                      else d\<lparr>us := Some (parseus rt t)\<rparr>)
              | None \<Rightarrow> localTs)
           in ([\<lparr>etype = ''book_change'',
                 symbol = s_product_id m,
                 exchange = ''coinbase'',
                 timestamp = ts,
                 localTimestamp = localTs,
                 isSnapshot = True,
                 bids = filter validAmountsOnly (map (mapSnapshotBookLevel rt) (s_bids m)),
                 asks = filter validAmountsOnly (map (mapSnapshotBookLevel rt) (s_asks m))\<rparr>],
               cache))
      | L2Update m \<Rightarrow>
          (let d = new_Date rt (Some (u_time m));
               chosen =
                 (if js_lt (valueOf d) (Num 0) then
                    (case cache (u_product_id m) of
                       None \<Rightarrow> None
                     | Some previousValidTimestamp \<Rightarrow> Some (previousValidTimestamp, cache))
                  else
                    (let d = d\<lparr>us := Some (parseus rt (u_time m))\<rparr>
                     in Some (d, cache(u_product_id m \<mapsto> d))))
           in case chosen of
                None \<Rightarrow> ([], cache)
              | Some (ts, cache') \<Rightarrow>
                  ([\<lparr>etype = ''book_change'',
                     symbol = u_product_id m,
                     exchange = ''coinbase'',
                     timestamp = ts,
                     localTimestamp = localTs,
                     isSnapshot = False,
                     bids = map (mapUpdateBookLevel rt) (filter (\<lambda>c. fst c = Buy) (u_changes m)),
                     asks = map (mapUpdateBookLevel rt) (filter (\<lambda>c. fst c = Sell) (u_changes m))\<rparr>],
                   cache')))"

text \<open>
  One instance fed a sequence of messages, each with its receipt time: the events of
  all the calls and the map after the last one.
\<close>

fun map_all ::
  "runtime \<Rightarrow> symbolLastTimestampMap \<Rightarrow> (book_message \<times> jsdate) list
     \<Rightarrow> BookChange list \<times> symbolLastTimestampMap" where
  "map_all rt cache [] = ([], cache)"
| "map_all rt cache ((message, localTs) # rest) =
     (case CoinbaseBookChangMapper_map rt cache message localTs of
        (evs, cache') \<Rightarrow>
          (case map_all rt cache' rest of (evs', cache'') \<Rightarrow> (evs @ evs', cache'')))"

section \<open>The book-ticker mapper\<close>

definition coinbaseBookTickerMapper_getFilters :: "string list option \<Rightarrow> Filter list" where
  "coinbaseBookTickerMapper_getFilters syms =
     (let syms = upperCaseSymbols syms in [\<lparr>channel = ''ticker'', symbols = syms\<rparr>])"

definition coinbaseBookTickerMapper_map ::
  "runtime \<Rightarrow> CoinbaseTicker \<Rightarrow> jsdate \<Rightarrow> BookTicker list" where
  "coinbaseBookTickerMapper_map rt message localTs =
     (let d = new_Date rt (k_time message);
          ts = (if k_time message = None \<or> js_lt (valueOf d) (Num 0) then localTs
                else d\<lparr>us := Some (parseus rt (the (k_time message)))\<rparr>)
      in [\<lparr>etype = ''book_ticker'',
           symbol = k_product_id message,
           exchange = ''coinbase'',
           timestamp = ts,
           localTimestamp = localTs,
           askAmount = map_option (js_Number rt) (k_best_ask_size message),
           askPrice = map_option (js_Number rt) (k_best_ask message),
           bidPrice = map_option (js_Number rt) (k_best_bid message),
           bidAmount = map_option (js_Number rt) (k_best_bid_size message)\<rparr>])"

section \<open>A runtime for concrete runs\<close>

text \<open>
  The values of the built-ins on the strings of the concrete runs below:
  \<^verbatim>\<open>new Date('2024-01-01T00:00:00.123456Z').valueOf()\<close> is 1704067200123,
  \<^verbatim>\<open>new Date('0001-01-01T00:00:00.000000Z').valueOf()\<close> is -62135596800000, and a
  string that is no date gives the invalid date. \<^verbatim>\<open>Number\<close> is given on the few
  decimal strings used, and is NaN on every other string here. \<^verbatim>\<open>parse\<mu>s\<close> handed
  \<^verbatim>\<open>undefined\<close> raises, as a function does that reads the length of its argument or
  slices it.
\<close>

definition demo_Date_parse :: "string \<Rightarrow> jsnumber" where
  "demo_Date_parse s =
     (if s = ''2024-01-01T00:00:00.123456Z'' then Num 1704067200123
      else if s = ''0001-01-01T00:00:00.000000Z'' then Num (- 62135596800000)
      else NaN)"

definition demo_Number :: "string \<Rightarrow> jsnumber" where
  "demo_Number s =
     (if s = ''50000.00'' then Num 50000
      else if s = ''50001.00'' then Num 50001
      else if s = ''1.5'' then Num (3 / 2)
      else if s = ''0'' then Num 0
      else if s = ''-2'' then Num (- 2)
      else NaN)"

definition demo_parseus :: "string \<Rightarrow> jsnumber" where
  "demo_parseus s = (if s = ''2024-01-01T00:00:00.123456Z'' then Num 456 else Num 0)"

definition demo_rt :: runtime where
  "demo_rt = \<lparr>js_Date_parse = demo_Date_parse, js_Number = demo_Number,
              js_String = (\<lambda>n. ''463751434''), parseus = demo_parseus,
              parseus_undefined = Inl TypeError\<rparr>"

definition demo_local :: jsdate where
  "demo_local = \<lparr>valueOf = Num 1704067200500, us = None\<rparr>"

definition demo_prev :: jsdate where
  "demo_prev = \<lparr>valueOf = Num 1704067200123, us = Some (Num 456)\<rparr>"

definition demo_invalid_update :: CoinbaseLevel2Update where
  "demo_invalid_update =
     \<lparr>u_product_id = ''BTC-USD'', u_time = ''0001-01-01T00:00:00.000000Z'',
      u_changes = [(Buy, ''50000.00'', ''1.5'')]\<rparr>"

definition demo_valid_update :: CoinbaseLevel2Update where
  "demo_valid_update =
     \<lparr>u_product_id = ''BTC-USD'', u_time = ''2024-01-01T00:00:00.123456Z'',
      u_changes = [(Sell, ''50001.00'', ''0'')]\<rparr>"

definition demo_unparsed_update :: CoinbaseLevel2Update where
  "demo_unparsed_update =
     \<lparr>u_product_id = ''BTC-USD'', u_time = ''not-a-date'',
      u_changes = [(Buy, ''50000.00'', ''1.5'')]\<rparr>"


definition demo_snapshot :: CoinbaseLevel2Snapshot where
  "demo_snapshot =
     \<lparr>s_product_id = ''BTC-USD'',
      s_bids = [(''50000.00'', ''1.5''), (''50000.00'', ''-2''), (''50000.00'', ''abc''),
                (''50001.00'', ''0'')],
      s_asks = [(''50001.00'', ''-2''), (''50001.00'', ''1.5'')],
      s_time = None\<rparr>"

definition demo_mixed_update :: CoinbaseLevel2Update where
  "demo_mixed_update =
     \<lparr>u_product_id = ''BTC-USD'', u_time = ''2024-01-01T00:00:00.123456Z'',
      u_changes = [(Buy, ''50000.00'', ''abc''), (Sell, ''50001.00'', ''-2''),
                   (Buy, ''50000.00'', ''0''), (Sell, ''50001.00'', ''1.5'')]\<rparr>"

definition demo_trade :: CoinbaseTrade where
  "demo_trade =
     \<lparr>m_trade_id = Num 463751434, m_time = ''0001-01-01T00:00:00.000000Z'',
      m_product_id = ''BTC-USD'', m_size = ''1.5'', m_price = ''50000.00'', m_side = Sell,
      m_rest = Map.empty\<rparr>"


section \<open>Properties\<close>

subsection \<open>The timestamp cache of the incremental branch\<close>

text \<open>
  C1. An incremental message whose time parses to a negative epoch value, for a symbol
  that has a cached timestamp: \<^verbatim>\<open>map\<close> yields exactly one BookChange, whose timestamp
  is the cached date with its \<^verbatim>\<open>\<mu>s\<close>, and the map is left as it was.
\<close>

theorem invalid_time_reuses_cached:
  assumes "js_lt (js_Date_parse rt (u_time m)) (Num 0)"
      and "cache (u_product_id m) = Some prev"
  shows "\<exists>ev. CoinbaseBookChangMapper_map rt cache (L2Update m) localTs = ([ev], cache)
            \<and> timestamp ev = prev"
  using assms by (simp add: CoinbaseBookChangMapper_map_def new_Date_def Let_def)

theorem invalid_time_reuses_cached_witness:
  "js_lt (js_Date_parse demo_rt (u_time demo_invalid_update)) (Num 0)
   \<and> [''BTC-USD'' \<mapsto> demo_prev] (u_product_id demo_invalid_update) = Some demo_prev
   \<and> (\<exists>ev. CoinbaseBookChangMapper_map demo_rt [''BTC-USD'' \<mapsto> demo_prev]
               (L2Update demo_invalid_update) demo_local = ([ev], [''BTC-USD'' \<mapsto> demo_prev])
            \<and> timestamp ev = demo_prev)"
proof -
  have h1: "js_lt (js_Date_parse demo_rt (u_time demo_invalid_update)) (Num 0)"
    by (simp add: demo_rt_def demo_Date_parse_def demo_invalid_update_def)
  have h2: "[''BTC-USD'' \<mapsto> demo_prev] (u_product_id demo_invalid_update) = Some demo_prev"
    by (simp add: demo_invalid_update_def)
  from invalid_time_reuses_cached
         [where rt = demo_rt and m = demo_invalid_update and prev = demo_prev
            and cache = "[''BTC-USD'' \<mapsto> demo_prev]" and localTs = demo_local] h1 h2
  show ?thesis by blast
qed

text \<open>
  C2. An incremental message whose time parses to a negative epoch value, for a symbol
  that has no cached timestamp: \<^verbatim>\<open>map\<close> yields nothing and the map is left as it was.
\<close>

theorem invalid_time_no_cache_suppressed:
  assumes "js_lt (js_Date_parse rt (u_time m)) (Num 0)"
      and "cache (u_product_id m) = None"
  shows "CoinbaseBookChangMapper_map rt cache (L2Update m) localTs = ([], cache)"
  using assms by (simp add: CoinbaseBookChangMapper_map_def new_Date_def Let_def)

theorem invalid_time_no_cache_suppressed_witness:
  "js_lt (js_Date_parse demo_rt (u_time demo_invalid_update)) (Num 0)
   \<and> Map.empty (u_product_id demo_invalid_update) = (None :: jsdate option)
   \<and> CoinbaseBookChangMapper_map demo_rt Map.empty (L2Update demo_invalid_update) demo_local
       = ([], Map.empty)"
proof -
  have h1: "js_lt (js_Date_parse demo_rt (u_time demo_invalid_update)) (Num 0)"
    by (simp add: demo_rt_def demo_Date_parse_def demo_invalid_update_def)
  have h2: "Map.empty (u_product_id demo_invalid_update) = (None :: jsdate option)"
    by simp
  from invalid_time_no_cache_suppressed
         [where rt = demo_rt and m = demo_invalid_update and cache = Map.empty
            and localTs = demo_local] h1 h2
  show ?thesis by blast
qed

text \<open>
  C3. An incremental message whose time parses to a non-negative epoch value: after
  \<^verbatim>\<open>map\<close>, the map's entry for the message's symbol is the parsed date with its
  \<^verbatim>\<open>\<mu>s\<close> attached, whatever the entry was before.
\<close>

theorem valid_time_stored:
  assumes "js_ge (js_Date_parse rt (u_time m)) (Num 0)"
  shows "snd (CoinbaseBookChangMapper_map rt cache (L2Update m) localTs) (u_product_id m)
           = Some \<lparr>valueOf = js_Date_parse rt (u_time m), us = Some (parseus rt (u_time m))\<rparr>"
  using assms by (simp add: CoinbaseBookChangMapper_map_def new_Date_def Let_def js_ge_def)

theorem valid_time_stored_witness:
  "js_ge (js_Date_parse demo_rt (u_time demo_valid_update)) (Num 0)
   \<and> snd (CoinbaseBookChangMapper_map demo_rt [''BTC-USD'' \<mapsto> demo_local]
            (L2Update demo_valid_update) demo_local) ''BTC-USD''
       = Some \<lparr>valueOf = Num 1704067200123, us = Some (Num 456)\<rparr>"
proof -
  have h: "js_ge (js_Date_parse demo_rt (u_time demo_valid_update)) (Num 0)"
    by (simp add: demo_rt_def demo_Date_parse_def demo_valid_update_def js_ge_def)
  from valid_time_stored [OF h, of "[''BTC-USD'' \<mapsto> demo_local]" demo_local] h
  show ?thesis
    by (simp add: demo_rt_def demo_Date_parse_def demo_parseus_def demo_valid_update_def)
qed

text \<open>
  The example of the specification: a valid update at 2024-01-01T00:00:00.123456Z, then
  an update stamped with the origin time. The second event carries the first one's date,
  with 456 microseconds, one bid and no ask.
\<close>

lemma invalid_after_valid_example:
  "map (\<lambda>ev. (timestamp ev, bids ev, asks ev))
     (fst (map_all demo_rt Map.empty
        [(L2Update demo_valid_update, demo_local), (L2Update demo_invalid_update, demo_local)]))
   = [(\<lparr>valueOf = Num 1704067200123, us = Some (Num 456)\<rparr>,
       [], [\<lparr>price = Num 50001, amount = Num 0\<rparr>]),
      (\<lparr>valueOf = Num 1704067200123, us = Some (Num 456)\<rparr>,
       [\<lparr>price = Num 50000, amount = Num (3 / 2)\<rparr>], [])]"
  by (simp add: CoinbaseBookChangMapper_map_def new_Date_def Let_def demo_rt_def
        demo_Date_parse_def demo_parseus_def demo_Number_def demo_valid_update_def
        demo_invalid_update_def mapUpdateBookLevel_def)

subsection \<open>What the cache can hold\<close>

lemma not_negative_cases:
  "\<not> js_lt v (Num 0) \<Longrightarrow> Number_isNaN v \<or> js_ge v (Num 0)"
  by (simp add: js_ge_def)

lemma map_keeps_not_negative:
  assumes "\<And>s d. cache s = Some d \<Longrightarrow> \<not> js_lt (valueOf d) (Num 0)"
      and "snd (CoinbaseBookChangMapper_map rt cache message localTs) s = Some d"
  shows "\<not> js_lt (valueOf d) (Num 0)"
proof (cases message)
  case (Snapshot m)
  with assms show ?thesis
    by (simp add: CoinbaseBookChangMapper_map_def Let_def)
next
  case (L2Update m)
  show ?thesis
  proof (cases "js_lt (js_Date_parse rt (u_time m)) (Num 0)")
    case True
    with L2Update assms(2) have "cache s = Some d"
      by (cases "cache (u_product_id m)")
         (simp_all add: CoinbaseBookChangMapper_map_def new_Date_def Let_def)
    then show ?thesis by (rule assms(1))
  next
    case False
    with L2Update assms(2)
    have "(cache(u_product_id m \<mapsto>
             \<lparr>valueOf = js_Date_parse rt (u_time m), us = Some (parseus rt (u_time m))\<rparr>)) s
           = Some d"
      by (simp add: CoinbaseBookChangMapper_map_def new_Date_def Let_def)
    then show ?thesis
      using False assms(1) by (auto split: if_splits)
  qed
qed

lemma map_all_keeps_not_negative:
  "(\<And>s d. cache s = Some d \<Longrightarrow> \<not> js_lt (valueOf d) (Num 0)) \<Longrightarrow>
   snd (map_all rt cache msgs) s = Some d \<Longrightarrow> \<not> js_lt (valueOf d) (Num 0)"
proof (induction msgs arbitrary: cache)
  case Nil
  then show ?case by simp
next
  case (Cons a msgs)
  obtain message localTs where a: "a = (message, localTs)" by (cases a)
  obtain evs cache' where step:
    "CoinbaseBookChangMapper_map rt cache message localTs = (evs, cache')"
    by (cases "CoinbaseBookChangMapper_map rt cache message localTs")
  have inv: "\<And>s d. cache' s = Some d \<Longrightarrow> \<not> js_lt (valueOf d) (Num 0)"
    using map_keeps_not_negative [of cache rt message localTs] Cons.prems(1) step
    by simp
  from Cons.prems(2) a step have "snd (map_all rt cache' msgs) s = Some d"
    by (simp split: prod.splits)
  with Cons.IH [of cache'] inv show ?case by blast
qed

lemma demo_valid_run:
  "snd (map_all demo_rt Map.empty [(L2Update demo_valid_update, demo_local)]) ''BTC-USD''
     = Some \<lparr>valueOf = Num 1704067200123, us = Some (Num 456)\<rparr>"
  by (simp add: CoinbaseBookChangMapper_map_def new_Date_def Let_def demo_rt_def
        demo_Date_parse_def demo_parseus_def demo_valid_update_def)

text \<open>
  C4, as the code has it. The claim reads: whatever sequence of \<^verbatim>\<open>map\<close> calls an
  instance has served, every date in its map has a non-negative \<^verbatim>\<open>valueOf\<close>, so that
  no date with a NaN or negative time value is ever stored. The check of the incremental
  branch is \<^verbatim>\<open>timestamp.valueOf() < 0\<close>, which is false on NaN: what holds is that every
  stored date has a \<^verbatim>\<open>valueOf\<close> that is non-negative or NaN, never a negative one.
\<close>

theorem cache_never_negative:
  "snd (map_all rt Map.empty msgs) s = Some d \<Longrightarrow>
   Number_isNaN (valueOf d) \<or> js_ge (valueOf d) (Num 0)"
proof -
  assume "snd (map_all rt Map.empty msgs) s = Some d"
  then have "\<not> js_lt (valueOf d) (Num 0)"
    using map_all_keeps_not_negative [of Map.empty rt msgs s d] by simp
  then show ?thesis by (rule not_negative_cases)
qed

theorem cache_never_negative_witness:
  "snd (map_all demo_rt Map.empty [(L2Update demo_valid_update, demo_local)]) ''BTC-USD''
     = Some \<lparr>valueOf = Num 1704067200123, us = Some (Num 456)\<rparr>
   \<and> (Number_isNaN (valueOf \<lparr>valueOf = Num 1704067200123, us = Some (Num 456)\<rparr>)
        \<or> js_ge (valueOf \<lparr>valueOf = Num 1704067200123, us = Some (Num 456)\<rparr>) (Num 0))"
  using cache_never_negative [OF demo_valid_run] demo_valid_run by blast

text \<open>
  C4 as stated fails: a first incremental message whose time is no date at all is
  stored, and the \<^verbatim>\<open>valueOf\<close> of the stored date is NaN, which is not \<^verbatim>\<open>>= 0\<close>.
\<close>

theorem cache_holds_invalid_date:
  "snd (map_all demo_rt Map.empty [(L2Update demo_unparsed_update, demo_local)]) ''BTC-USD''
     = Some \<lparr>valueOf = NaN, us = Some (Num 0)\<rparr>
   \<and> \<not> js_ge (valueOf \<lparr>valueOf = NaN, us = Some (Num 0)\<rparr>) (Num 0)"
  by (simp add: CoinbaseBookChangMapper_map_def new_Date_def Let_def demo_rt_def
        demo_Date_parse_def demo_parseus_def demo_unparsed_update_def js_ge_def)


subsection \<open>The trade mapper\<close>

text \<open>
  C5. For every matched-trade message, the trade mapper's \<^verbatim>\<open>map\<close> yields exactly one
  Trade, whose side is the opposite of the message's side tag: \<^verbatim>\<open>sell\<close> gives
  \<^verbatim>\<open>buy\<close> and \<^verbatim>\<open>buy\<close> gives \<^verbatim>\<open>sell\<close>.
\<close>

theorem trade_side_inverted:
  "\<exists>t. coinbaseTradesMapper_map rt message localTs = [t]
       \<and> trade_side t = (case m_side message of Sell \<Rightarrow> Buy | Buy \<Rightarrow> Sell)"
  by (cases "m_side message") (simp_all add: coinbaseTradesMapper_map_def Let_def)

text \<open>
  On a message of the declared type, the two renderings of \<^verbatim>\<open>map\<close> agree, and
  nothing is raised.
\<close>

lemma received_object_declared: "received_object (received message) = trade_object message"
  by (simp add: received_object_def received_def trade_object_def)

lemma map_received_declared:
  "coinbaseTradesMapper_map_received rt (received message) localTs
     = Inr (coinbaseTradesMapper_map rt message localTs)"
proof -
  have fields:
    "r_time (received message) = Some (m_time message)"
    "r_trade_id (received message) = m_trade_id message"
    "r_product_id (received message) = m_product_id message"
    "r_size (received message) = m_size message"
    "r_price (received message) = m_price message"
    "r_side (received message) = m_side message"
    by (simp_all add: received_def)
  show ?thesis
    by (simp add: coinbaseTradesMapper_map_received_def coinbaseTradesMapper_map_def
          call_parseus_def received_object_declared fields Let_def)
qed

lemma trade_timestamp_declared:
  "\<exists>t. coinbaseTradesMapper_map rt message localTs = [t]
     \<and> timestamp t = \<lparr>valueOf = js_Date_parse rt (m_time message),
                       us = Some (parseus rt (m_time message))\<rparr>"
  by (simp add: coinbaseTradesMapper_map_def new_Date_def Let_def)

text \<open>A trade stamped with the exchange's defective origin time keeps that time.\<close>

lemma trade_demo:
  "map timestamp (coinbaseTradesMapper_map demo_rt demo_trade demo_local)
     = [\<lparr>valueOf = Num (- 62135596800000), us = Some (Num 0)\<rparr>]"
  by (simp add: coinbaseTradesMapper_map_def new_Date_def Let_def demo_rt_def demo_trade_def
        demo_Date_parse_def demo_parseus_def)




subsection \<open>Levels of a snapshot\<close>

lemma validAmountsOnly_iff:
  "validAmountsOnly l \<longleftrightarrow> \<not> Number_isNaN (amount l) \<and> js_ge (amount l) (Num 0)"
  by (simp add: validAmountsOnly_def js_ge_def)

text \<open>
  C6. For every snapshot message, \<^verbatim>\<open>map\<close> yields one BookChange whose bids are the
  levels of the message's bids, in their order, that have an amount which is not NaN and
  is \<^verbatim>\<open>>= 0\<close>, and whose asks are the same selection of the message's asks: every level
  yielded has such an amount, and no level whose amount is NaN or negative is yielded.
\<close>

theorem snapshot_levels_valid:
  "\<exists>ev. CoinbaseBookChangMapper_map rt cache (Snapshot m) localTs = ([ev], cache)
     \<and> bids ev = filter (\<lambda>l. \<not> Number_isNaN (amount l) \<and> js_ge (amount l) (Num 0))
                   (map (\<lambda>(p, a). \<lparr>price = js_Number rt p, amount = js_Number rt a\<rparr>) (s_bids m))
     \<and> asks ev = filter (\<lambda>l. \<not> Number_isNaN (amount l) \<and> js_ge (amount l) (Num 0))
                   (map (\<lambda>(p, a). \<lparr>price = js_Number rt p, amount = js_Number rt a\<rparr>) (s_asks m))
     \<and> (\<forall>l \<in> set (bids ev) \<union> set (asks ev).
           \<not> Number_isNaN (amount l) \<and> js_ge (amount l) (Num 0))
     \<and> (\<forall>l. Number_isNaN (amount l) \<or> js_lt (amount l) (Num 0)
           \<longrightarrow> l \<notin> set (bids ev) \<and> l \<notin> set (asks ev))"
proof -
  let ?ok = "\<lambda>l. \<not> Number_isNaN (amount l) \<and> js_ge (amount l) (Num 0)"
  have v: "validAmountsOnly = ?ok"
    by (rule ext) (rule validAmountsOnly_iff)
  have f: "mapSnapshotBookLevel rt = (\<lambda>(p, a). \<lparr>price = js_Number rt p, amount = js_Number rt a\<rparr>)"
    by (rule ext) (simp add: mapSnapshotBookLevel_def)
  obtain ev where ev: "CoinbaseBookChangMapper_map rt cache (Snapshot m) localTs = ([ev], cache)"
    and b: "bids ev = filter validAmountsOnly (map (mapSnapshotBookLevel rt) (s_bids m))"
    and a: "asks ev = filter validAmountsOnly (map (mapSnapshotBookLevel rt) (s_asks m))"
    by (simp add: CoinbaseBookChangMapper_map_def Let_def)
  have all: "\<forall>l \<in> set (bids ev) \<union> set (asks ev). ?ok l"
    unfolding a b v by auto
  have none: "\<forall>l. Number_isNaN (amount l) \<or> js_lt (amount l) (Num 0)
                 \<longrightarrow> l \<notin> set (bids ev) \<and> l \<notin> set (asks ev)"
    using all by (auto simp: js_ge_def)
  from ev a b all none show ?thesis
    unfolding v f by blast
qed

theorem snapshot_levels_valid_witness:
  "\<exists>ev. CoinbaseBookChangMapper_map demo_rt Map.empty (Snapshot demo_snapshot) demo_local
           = ([ev], Map.empty)
     \<and> bids ev = [\<lparr>price = Num 50000, amount = Num (3 / 2)\<rparr>, \<lparr>price = Num 50001, amount = Num 0\<rparr>]
     \<and> asks ev = [\<lparr>price = Num 50001, amount = Num (3 / 2)\<rparr>]
     \<and> \<lparr>price = Num 50000, amount = Num (- 2)\<rparr> \<notin> set (bids ev)
     \<and> \<lparr>price = Num 50000, amount = NaN\<rparr> \<notin> set (bids ev)"
proof -
  from snapshot_levels_valid
         [where rt = demo_rt and cache = Map.empty and m = demo_snapshot and localTs = demo_local]
  obtain ev where
    ev: "CoinbaseBookChangMapper_map demo_rt Map.empty (Snapshot demo_snapshot) demo_local
           = ([ev], Map.empty)"
    and b: "bids ev = filter (\<lambda>l. \<not> Number_isNaN (amount l) \<and> js_ge (amount l) (Num 0))
              (map (\<lambda>(p, a). \<lparr>price = js_Number demo_rt p, amount = js_Number demo_rt a\<rparr>)
                 (s_bids demo_snapshot))"
    and a: "asks ev = filter (\<lambda>l. \<not> Number_isNaN (amount l) \<and> js_ge (amount l) (Num 0))
              (map (\<lambda>(p, a). \<lparr>price = js_Number demo_rt p, amount = js_Number demo_rt a\<rparr>)
                 (s_asks demo_snapshot))"
    and none: "\<forall>l. Number_isNaN (amount l) \<or> js_lt (amount l) (Num 0)
                 \<longrightarrow> l \<notin> set (bids ev) \<and> l \<notin> set (asks ev)"
    by blast
  have b': "bids ev = [\<lparr>price = Num 50000, amount = Num (3 / 2)\<rparr>, \<lparr>price = Num 50001, amount = Num 0\<rparr>]"
    unfolding b by (simp add: demo_snapshot_def demo_rt_def demo_Number_def js_ge_def)
  have a': "asks ev = [\<lparr>price = Num 50001, amount = Num (3 / 2)\<rparr>]"
    unfolding a by (simp add: demo_snapshot_def demo_rt_def demo_Number_def js_ge_def)
  have n1: "\<lparr>price = Num 50000, amount = Num (- 2)\<rparr> \<notin> set (bids ev)"
    using none [rule_format, of "\<lparr>price = Num 50000, amount = Num (- 2)\<rparr>"] by simp
  have n2: "\<lparr>price = Num 50000, amount = NaN\<rparr> \<notin> set (bids ev)"
    using none [rule_format, of "\<lparr>price = Num 50000, amount = NaN\<rparr>"] by simp
  from ev a' b' n1 n2 show ?thesis by blast
qed

subsection \<open>Levels of an incremental update\<close>

lemma side_filter_split:
  "length (filter (\<lambda>c. fst c = Buy) cs) + length (filter (\<lambda>c. fst c = Sell) cs) = length cs"
proof (induction cs)
  case Nil
  then show ?case by simp
next
  case (Cons c cs)
  then show ?case by (cases "fst c") simp_all
qed

text \<open>
  C7. Whenever \<^verbatim>\<open>map\<close> yields an event for an incremental message, the event's bids
  are the changes tagged \<^verbatim>\<open>buy\<close> and its asks the changes tagged \<^verbatim>\<open>sell\<close>, in the
  order of the message, each as the pair of its parsed price and amount. Nothing is
  filtered on the amount: every change is on one of the two sides.
\<close>

theorem update_levels_partitioned:
  assumes "CoinbaseBookChangMapper_map rt cache (L2Update m) localTs = (evs, cache')"
      and "ev \<in> set evs"
  shows "bids ev = [\<lparr>price = js_Number rt p, amount = js_Number rt a\<rparr>.
                      (tag, p, a) \<leftarrow> u_changes m, tag = Buy]
       \<and> asks ev = [\<lparr>price = js_Number rt p, amount = js_Number rt a\<rparr>.
                      (tag, p, a) \<leftarrow> u_changes m, tag = Sell]
       \<and> length (bids ev) + length (asks ev) = length (u_changes m)"
proof -
  have shape: "map (mapUpdateBookLevel rt) (filter (\<lambda>c. fst c = s) cs)
        = [\<lparr>price = js_Number rt p, amount = js_Number rt a\<rparr>. (tag, p, a) \<leftarrow> cs, tag = s]"
    for s cs
    by (induction cs) (auto simp: mapUpdateBookLevel_def)
  from assms
  have b: "bids ev = map (mapUpdateBookLevel rt) (filter (\<lambda>c. fst c = Buy) (u_changes m))"
   and a: "asks ev = map (mapUpdateBookLevel rt) (filter (\<lambda>c. fst c = Sell) (u_changes m))"
    by (auto simp: CoinbaseBookChangMapper_map_def Let_def split: if_splits option.splits)
  have "length (bids ev) + length (asks ev) = length (u_changes m)"
    unfolding a b by (simp add: side_filter_split)
  with a b shape show ?thesis by simp
qed

theorem update_levels_partitioned_witness:
  "\<exists>ev. CoinbaseBookChangMapper_map demo_rt Map.empty (L2Update demo_mixed_update) demo_local
          = ([ev], [''BTC-USD'' \<mapsto> demo_prev])
     \<and> ev \<in> set [ev]
     \<and> bids ev = [\<lparr>price = Num 50000, amount = NaN\<rparr>, \<lparr>price = Num 50000, amount = Num 0\<rparr>]
     \<and> asks ev = [\<lparr>price = Num 50001, amount = Num (- 2)\<rparr>,
                  \<lparr>price = Num 50001, amount = Num (3 / 2)\<rparr>]
     \<and> length (bids ev) + length (asks ev) = length (u_changes demo_mixed_update)"
proof -
  obtain ev where
    run: "CoinbaseBookChangMapper_map demo_rt Map.empty (L2Update demo_mixed_update) demo_local
            = ([ev], [''BTC-USD'' \<mapsto> demo_prev])"
    by (simp add: CoinbaseBookChangMapper_map_def new_Date_def Let_def demo_rt_def
          demo_Date_parse_def demo_parseus_def demo_mixed_update_def demo_prev_def)
  have mem: "ev \<in> set [ev]" by simp
  from update_levels_partitioned [OF run mem]
  have b: "bids ev = [\<lparr>price = js_Number demo_rt p, amount = js_Number demo_rt a\<rparr>.
                      (tag, p, a) \<leftarrow> u_changes demo_mixed_update, tag = Buy]"
   and a: "asks ev = [\<lparr>price = js_Number demo_rt p, amount = js_Number demo_rt a\<rparr>.
                      (tag, p, a) \<leftarrow> u_changes demo_mixed_update, tag = Sell]"
   and l: "length (bids ev) + length (asks ev) = length (u_changes demo_mixed_update)"
    by blast+
  have b': "bids ev = [\<lparr>price = Num 50000, amount = NaN\<rparr>, \<lparr>price = Num 50000, amount = Num 0\<rparr>]"
    unfolding b by (simp add: demo_mixed_update_def demo_rt_def demo_Number_def)
  have a': "asks ev = [\<lparr>price = Num 50001, amount = Num (- 2)\<rparr>,
                       \<lparr>price = Num 50001, amount = Num (3 / 2)\<rparr>]"
    unfolding a by (simp add: demo_mixed_update_def demo_rt_def demo_Number_def)
  from run mem a' b' l show ?thesis by blast
qed

subsection \<open>The book-ticker mapper\<close>

text \<open>
  C8. For every ticker message, \<^verbatim>\<open>map\<close> yields exactly one BookTicker. Its timestamp
  is the receipt time as it was handed in when the message has no time or the time parses
  to a negative value, and otherwise the parsed date with the \<^verbatim>\<open>\<mu>s\<close> of the time
  string.
\<close>

theorem ticker_timestamp_policy:
  "\<exists>ev. coinbaseBookTickerMapper_map rt message localTs = [ev]
     \<and> timestamp ev =
         (case k_time message of
            None \<Rightarrow> localTs
          | Some t \<Rightarrow>
              if js_lt (js_Date_parse rt t) (Num 0) then localTs
              else \<lparr>valueOf = js_Date_parse rt t, us = Some (parseus rt t)\<rparr>)"
  by (cases "k_time message")
     (simp_all add: coinbaseBookTickerMapper_map_def new_Date_def Let_def)

subsection \<open>Subscription filters\<close>

lemma upper_char_idem: "upper_char (upper_char c) = upper_char c"
proof (cases "97 \<le> (of_char c :: nat) \<and> (of_char c :: nat) \<le> 122")
  case True
  define k :: nat where "k = of_char c - 32"
  from True have u: "upper_char c = char_of k"
    by (simp add: upper_char_def Let_def k_def)
  from True have "k < 256" and range: "\<not> (97 \<le> k \<and> k \<le> 122)"
    unfolding k_def by arith+
  then have eq: "(of_char (char_of k) :: nat) = k"
    by simp
  have "upper_char (char_of k) = char_of k"
    unfolding upper_char_def Let_def eq using range by (simp only: if_False)
  with u show ?thesis by (simp only:)
next
  case False
  then have "upper_char c = c"
    by (auto simp: upper_char_def Let_def)
  then show ?thesis by (simp only:)
qed

lemma toUpperCase_idem: "toUpperCase (toUpperCase s) = toUpperCase s"
  by (simp add: toUpperCase_def upper_char_idem)

lemma upperCaseSymbols_idem: "upperCaseSymbols (upperCaseSymbols syms) = upperCaseSymbols syms"
  by (cases syms) (simp_all add: upperCaseSymbols_def toUpperCase_idem)

lemma upper_demo: "upperCaseSymbols (Some [''btc-usd'', ''Eth-Usd'']) = Some [''BTC-USD'', ''ETH-USD'']"
  by code_simp

text \<open>
  C9. For every symbol list, absent or not: the descriptors of each of the three
  \<^verbatim>\<open>getFilters\<close> are the same for a list and for its normalization; a second call on
  the book mapper, after the first, gives the descriptors of the first, whatever the
  instance's map, which the call leaves alone; and normalizing a normalized list changes
  nothing.
\<close>

theorem getFilters_stable:
  "coinbaseTradesMapper_getFilters (upperCaseSymbols syms) = coinbaseTradesMapper_getFilters syms
   \<and> coinbaseBookTickerMapper_getFilters (upperCaseSymbols syms)
       = coinbaseBookTickerMapper_getFilters syms
   \<and> fst (CoinbaseBookChangMapper_getFilters cache (upperCaseSymbols syms))
       = fst (CoinbaseBookChangMapper_getFilters cache syms)
   \<and> fst (CoinbaseBookChangMapper_getFilters
            (snd (CoinbaseBookChangMapper_getFilters cache syms)) syms)
       = fst (CoinbaseBookChangMapper_getFilters cache syms)
   \<and> fst (CoinbaseBookChangMapper_getFilters cache syms)
       = fst (CoinbaseBookChangMapper_getFilters cache2 syms)
   \<and> snd (CoinbaseBookChangMapper_getFilters cache syms) = cache
   \<and> upperCaseSymbols (upperCaseSymbols syms) = upperCaseSymbols syms"
  by (simp add: coinbaseTradesMapper_getFilters_def coinbaseBookTickerMapper_getFilters_def
        CoinbaseBookChangMapper_getFilters_def upperCaseSymbols_idem Let_def)

end
